theory Spec2Isabelle
  imports Main "HOL-Library.Word"
begin

unbundle bit_operations_syntax

section \<open>Data model\<close>

text \<open>
  The module \<^verbatim>\<open>src/_base.ts\<close> implements hybrid encryption and signature checking
  on top of three collaborators: the platform's \<^verbatim>\<open>webcrypto.subtle\<close>, the
  \<^verbatim>\<open>uint8arrays\<close> codec library, and the helper module \<^verbatim>\<open>./util.js\<close>.
  A \<^verbatim>\<open>Uint8Array\<close> and an \<^verbatim>\<open>ArrayBuffer\<close> are both a list of bytes here: the
  \<^verbatim>\<open>format\<close> arguments of the source only choose between these two views of the
  same bytes.
\<close>

type_synonym byte = "8 word"
type_synonym bytes = "byte list"

text \<open>
  A thrown exception or a rejected promise is the \<open>Inl\<close> branch of a sum. The error
  kinds are the ones the specification names; the collaborators decide which one they
  raise, the module only propagates them.
\<close>

datatype error =
    UnsupportedAlgorithm
  | UnsupportedKeyKind
  | InvalidKeyLength
  | MalformedIdentifier
  | InvalidEncoding
  | KeyUseMismatch
  | UnsupportedPublicKeyFormat
  | DecryptionFailed
  | ProviderFailure

datatype KeyUse = Exchange | Sign

datatype HashAlg = SHA_256

text \<open>\<^verbatim>\<open>Msg\<close>, and every other argument typed \<^verbatim>\<open>string|Uint8Array\<close>.\<close>

datatype Msg = Str string | Buf bytes

text \<open>
  An argument typed \<^verbatim>\<open>CryptoKey|Uint8Array|string\<close> (\<^verbatim>\<open>aesKey\<close>, \<^verbatim>\<open>publicKey\<close>,
  the \<^verbatim>\<open>key\<close> of \<^verbatim>\<open>encryptKeyTo\<close>). The handle type \<open>'k\<close> is opaque.
\<close>

datatype 'k KeyArg = CryptoKey 'k | KeyBytes bytes | KeyStr string

text \<open>An argument typed \<^verbatim>\<open>CryptoKey|Uint8Array\<close> (no string).\<close>

datatype 'k KeyOrBytes = IsKey 'k | IsBytes bytes

text \<open>An argument typed \<^verbatim>\<open>CryptoKey|string\<close> (\<^verbatim>\<open>encryptBytes\<close>, \<^verbatim>\<open>decryptBytes\<close>).\<close>

datatype 'k KeyOrString = IsCryptoKey 'k | IsString string

datatype Format = Uint8array | Arraybuffer

text \<open>
  The outcome of calling a promise-returning function without awaiting it: the call
  itself can throw, or it returns a promise that later rejects or resolves. Only the
  first is seen by a \<^verbatim>\<open>try ... catch\<close> around the bare call.
\<close>

datatype 'a Call = Throws error | Rejects error | Resolves 'a

subsection \<open>Randomness\<close>

text \<open>
  The entropy the platform hands out is an explicit stream of bytes, threaded through
  every function that draws from it. An effectful, fallible computation is a function
  from the stream to its outcome and the rest of the stream.
\<close>

type_synonym rng = "nat \<Rightarrow> byte"

type_synonym 'a io = "rng \<Rightarrow> (error + 'a) \<times> rng"

definition returnE :: "'a \<Rightarrow> 'a io" where
  "returnE x r = (Inr x, r)"

definition liftE :: "error + 'a \<Rightarrow> 'a io" where
  "liftE v r = (v, r)"

definition bindE :: "'a io \<Rightarrow> ('a \<Rightarrow> 'b io) \<Rightarrow> 'b io" where
  "bindE m f r = (case m r of (Inl e, r') \<Rightarrow> (Inl e, r') | (Inr x, r') \<Rightarrow> f x r')"

definition bindR :: "error + 'a \<Rightarrow> ('a \<Rightarrow> error + 'b) \<Rightarrow> error + 'b" where
  "bindR v f = (case v of Inl e \<Rightarrow> Inl e | Inr x \<Rightarrow> f x)"

subsection \<open>Collaborators\<close>

text \<open>
  Everything the module imports and calls, as one record of functions. The first group
  is \<^verbatim>\<open>webcrypto.subtle\<close>, the second \<^verbatim>\<open>./util.js\<close>, the third \<^verbatim>\<open>uint8arrays\<close> and
  the platform's string functions. \<open>subtle_encrypt\<close> and \<open>subtle_decrypt\<close> take the
  algorithm name, the iv, the key and the data; the authenticated cipher draws no
  randomness of its own. Key generation and the asymmetric wrap do.
  \<open>asymmetricDecrypt\<close> is the provider's private-key decryption, which only the
  opening of an envelope needs. \<open>DEFAULT_CHAR_SIZE\<close> is the character size of
  constants.js, which the specification does not fix.
\<close>

record 'k env =
  subtle_generateKey :: "string \<Rightarrow> nat \<Rightarrow> 'k io"
  subtle_exportKey :: "'k \<Rightarrow> error + bytes"
  subtle_importKey :: "bytes \<Rightarrow> string \<Rightarrow> nat \<Rightarrow> error + 'k"
  subtle_encrypt :: "string \<Rightarrow> bytes \<Rightarrow> 'k \<Rightarrow> bytes \<Rightarrow> error + bytes"
  subtle_decrypt :: "string \<Rightarrow> bytes \<Rightarrow> 'k \<Rightarrow> bytes \<Rightarrow> error + bytes"
  asymmetricDecrypt :: "bytes \<Rightarrow> 'k \<Rightarrow> error + bytes"
  rsaOperations_encrypt :: "Msg \<Rightarrow> 'k KeyArg \<Rightarrow> bytes io"
  rsaOperations_verify :: "Msg \<Rightarrow> Msg \<Rightarrow> 'k \<Rightarrow> bool Call"
  didToPublicKey :: "string \<Rightarrow> error + bytes"
  importPublicKey :: "bytes \<Rightarrow> HashAlg \<Rightarrow> KeyUse \<Rightarrow> error + 'k"
  util_importKey :: "string \<Rightarrow> error + 'k"
  base64ToArrBuf :: "string \<Rightarrow> error + bytes"
  strToArrBuf :: "string \<Rightarrow> nat \<Rightarrow> bytes"
  sha256 :: "bytes \<Rightarrow> bytes"
  DEFAULT_CHAR_SIZE :: nat
  fromString :: "string \<Rightarrow> bytes"
  toString :: "bytes \<Rightarrow> string \<Rightarrow> string"
  normalize_NFD :: "string \<Rightarrow> string"
  TextEncoder_encode :: "string \<Rightarrow> bytes"

subsection \<open>Constants and small helpers of the missing modules\<close>

text \<open>Modelled from the spec: the nonce is 12 bytes (\<^verbatim>\<open>IV_LENGTH\<close> of constants.js).\<close>

definition IV_LENGTH :: nat where
  "IV_LENGTH = 12"

text \<open>
  Modelled from the spec: \<^verbatim>\<open>AES_GCM\<close> of constants.js names the one symmetric
  algorithm, the authenticated cipher with a 96-bit nonce.
\<close>

definition AES_GCM :: string where
  "AES_GCM = ''AES-GCM''"

text \<open>
  Modelled from the spec: \<^verbatim>\<open>DEFAULT_SYMM_ALGORITHM\<close> of constants.js, the default
  symmetric algorithm, is that same authenticated cipher.
\<close>

definition DEFAULT_SYMM_ALGORITHM :: string where
  "DEFAULT_SYMM_ALGORITHM = AES_GCM"

text \<open>
  Modelled from the spec: \<^verbatim>\<open>DEFAULT_SYMM_LENGTH\<close> of constants.js, the default
  symmetric key length, is 256 bits.
\<close>

definition DEFAULT_SYMM_LENGTH :: nat where
  "DEFAULT_SYMM_LENGTH = 256"

text \<open>Modelled from the spec: \<^verbatim>\<open>SymmKeyLength.B256\<close> of types.js is 256 bits.\<close>

definition SymmKeyLength_B256 :: nat where
  "SymmKeyLength_B256 = 256"

text \<open>Modelled from the spec: \<^verbatim>\<open>joinBufs\<close> of util.js concatenates two buffers.\<close>

definition joinBufs :: "bytes \<Rightarrow> bytes \<Rightarrow> bytes" where
  "joinBufs a b = a @ b"

text \<open>
  Modelled from the spec: \<^verbatim>\<open>randomBuf\<close> of util.js returns that many fresh random
  bytes; here the next bytes of the entropy stream.
\<close>

definition randomBuf :: "nat \<Rightarrow> rng \<Rightarrow> bytes \<times> rng" where
  "randomBuf n r = (map r [0..<n], \<lambda>i. r (i + n))"

text \<open>
  Modelled from the spec: \<^verbatim>\<open>normalizeUnicodeToBuf\<close> of util.js treats content as a
  byte sequence: a buffer is taken as it is, a string is first turned into bytes by its
  character codes.
\<close>

definition normalizeUnicodeToBuf :: "'k env \<Rightarrow> Msg \<Rightarrow> nat \<Rightarrow> bytes" where
  "normalizeUnicodeToBuf E msg charsize =
     (case msg of Str s \<Rightarrow> strToArrBuf E s charsize | Buf b \<Rightarrow> b)"


section \<open>The module\<close>

text \<open>
  The functions below follow the source one by one. Left out are \<^verbatim>\<open>makeRSAKeypair\<close>
  and the text variants \<^verbatim>\<open>AES.export.asString\<close>, \<^verbatim>\<open>AES.exportAsString\<close> and
  \<^verbatim>\<open>encryptKeyTo.asString\<close>, which no property here concerns.
\<close>

subsection \<open>Symmetric keys\<close>

text \<open>\<^verbatim>\<open>importAesKey(key, length?)\<close>; \<^verbatim>\<open>length || B256\<close> also replaces a zero.\<close>

definition importAesKey :: "'k env \<Rightarrow> bytes \<Rightarrow> nat option \<Rightarrow> error + 'k" where
  "importAesKey E key len =
     subtle_importKey E key AES_GCM
       (case len of None \<Rightarrow> SymmKeyLength_B256
        | Some l \<Rightarrow> if l = 0 then SymmKeyLength_B256 else l)"



text \<open>\<^verbatim>\<open>AES.import(key)\<close>: a string is base64-decoded first.\<close>

definition AES_import :: "'k env \<Rightarrow> Msg \<Rightarrow> error + 'k" where
  "AES_import E key =
     bindR (case key of Str s \<Rightarrow> base64ToArrBuf E s | Buf b \<Rightarrow> Inr b)
       (\<lambda>raw. importAesKey E raw None)"

subsection \<open>Symmetric encryption and decryption\<close>

text \<open>
  \<^verbatim>\<open>encryptBytes(msg, key, opts?)\<close> and \<^verbatim>\<open>decryptBytes(msg, key, opts?)\<close> are private
  to the module and each is called once, without \<^verbatim>\<open>opts\<close>; so \<^verbatim>\<open>opts?.iv\<close> and
  \<^verbatim>\<open>opts?.charsize\<close> are undefined, the character size is the default and the iv is
  drawn at random.
\<close>

definition encryptBytes :: "'k env \<Rightarrow> Msg \<Rightarrow> 'k KeyOrString \<Rightarrow> bytes io" where
  "encryptBytes E msg key =
     (let data = normalizeUnicodeToBuf E msg (DEFAULT_CHAR_SIZE E) in
      bindE (case key of IsString s \<Rightarrow> liftE (util_importKey E s)
                       | IsCryptoKey k \<Rightarrow> returnE k)
        (\<lambda>importedKey.
           bindE (\<lambda>r. case randomBuf IV_LENGTH r of (iv, r') \<Rightarrow> (Inr iv, r'))
             (\<lambda>iv.
                bindE (liftE (subtle_encrypt E AES_GCM iv importedKey data))
                  (\<lambda>cipherBuf. returnE (joinBufs iv cipherBuf)))))"


text \<open>
  \<^verbatim>\<open>encrypt(data, cryptoKey, format?, iv?)\<close>, which is also \<^verbatim>\<open>AES.encrypt\<close>. A
  \<^verbatim>\<open>Uint8Array\<close> is always truthy, so \<^verbatim>\<open>iv ? ... : ...\<close> tests presence.
\<close>

definition encrypt ::
  "'k env \<Rightarrow> bytes \<Rightarrow> 'k KeyOrBytes \<Rightarrow> Format option \<Rightarrow> bytes option \<Rightarrow> bytes io" where
  "encrypt E data cryptoKey format iv =
     bindE (case cryptoKey of IsKey k \<Rightarrow> returnE k
                            | IsBytes b \<Rightarrow> liftE (importAesKey E b None))
       (\<lambda>key.
          case iv of
            Some v \<Rightarrow> liftE (subtle_encrypt E AES_GCM v key data)
          | None \<Rightarrow> encryptBytes E (Buf data) (IsCryptoKey key))"


subsection \<open>The envelope: sealing\<close>







subsection \<open>The envelope: opening\<close>

text \<open>
  Modelled from the spec: the asymmetric key pair of the data model, with its two
  opaque handles, its size in bits and its usage. The module's class \<^verbatim>\<open>Keys\<close>, which
  would hold it, is empty.
\<close>

record 'k AsymmetricKeyPair =
  publicKey :: 'k
  privateKey :: 'k
  keySize :: nat
  usage :: KeyUse


text \<open>Flipping bit \<open>b\<close> of the byte at position \<open>p\<close> of a buffer.\<close>

definition flipBit :: "nat \<Rightarrow> nat \<Rightarrow> bytes \<Rightarrow> bytes" where
  "flipBit p b xs = xs[p := flip_bit b (xs ! p)]"

subsection \<open>Signatures\<close>

text \<open>
  \<^verbatim>\<open>verify(msg, sig, signingDid)\<close>. The identifier is decoded and the key imported
  before the \<^verbatim>\<open>try\<close> block; inside it, \<^verbatim>\<open>rsaOperations.verify\<close> is called and its
  promise returned without \<^verbatim>\<open>await\<close>, so the \<^verbatim>\<open>catch\<close> sees a throw of the call
  only.
\<close>

definition verify :: "'k env \<Rightarrow> Msg \<Rightarrow> Msg \<Rightarrow> string \<Rightarrow> error + bool" where
  "verify E msg sig signingDid =
     bindR (didToPublicKey E signingDid)
       (\<lambda>key'. bindR (importPublicKey E key' SHA_256 Sign)
          (\<lambda>key. case rsaOperations_verify E msg sig key of
                    Throws err \<Rightarrow> Inr False
                  | Rejects err \<Rightarrow> Inl err
                  | Resolves isOk \<Rightarrow> Inr isOk))"

subsection \<open>Identifiers\<close>

text \<open>
  Modelled from the spec: the identifier codec (\<^verbatim>\<open>publicKeyToDid\<close> and
  \<^verbatim>\<open>didToPublicKey\<close> live in util.js and are only re-exported here). An identifier is
  the tag of its algorithm and usage followed by the base-encoded public key bytes. The
  tag table, the base encoding and the key length each algorithm expects are
  parameters.
\<close>

datatype Algorithm = RsaExchange | RsaSigning

type_synonym tagKey = "Algorithm \<times> KeyUse"

record codec =
  tags :: "(tagKey \<times> string) list"
  baseEncode :: "bytes \<Rightarrow> string"
  baseDecode :: "string \<Rightarrow> bytes option"
  keyLengthOk :: "Algorithm \<Rightarrow> nat \<Rightarrow> bool"

text \<open>The string \<open>s\<close> starts with \<open>t\<close>.\<close>

definition startsWith :: "string \<Rightarrow> string \<Rightarrow> bool" where
  "startsWith t s = (take (length t) s = t)"

text \<open>
  Modelled from the spec: \<open>encode\<close> is the tag followed by the base-encoded bytes and
  fails with \<open>UnsupportedAlgorithm\<close> when the combination has no tag.
\<close>

definition encode :: "codec \<Rightarrow> bytes \<Rightarrow> Algorithm \<Rightarrow> KeyUse \<Rightarrow> error + string" where
  "encode C publicKeyBytes algorithm use =
     (case map_of (tags C) (algorithm, use) of
        None \<Rightarrow> Inl UnsupportedAlgorithm
      | Some t \<Rightarrow> Inr (t @ baseEncode C publicKeyBytes))"

text \<open>
  Modelled from the spec: the longest tag of the table that starts the string, if any.
\<close>

fun longestTag ::
  "(tagKey \<times> string) list \<Rightarrow> string \<Rightarrow> (tagKey \<times> string) option
     \<Rightarrow> (tagKey \<times> string) option" where
  "longestTag [] s best = best"
| "longestTag ((k, t) # ts) s best =
     (if startsWith t s \<and> (case best of None \<Rightarrow> True | Some (k', t') \<Rightarrow> length t' < length t)
      then longestTag ts s (Some (k, t))
      else longestTag ts s best)"

text \<open>
  Modelled from the spec: \<open>decode\<close> matches the longest known tag, fails with
  \<open>MalformedIdentifier\<close> when no tag matches and with \<open>InvalidEncoding\<close> when the
  remainder is not the encoding of bytes of the expected length.
\<close>

definition decode :: "codec \<Rightarrow> string \<Rightarrow> error + (bytes \<times> Algorithm \<times> KeyUse)" where
  "decode C identifier =
     (case longestTag (tags C) identifier None of
        None \<Rightarrow> Inl MalformedIdentifier
      | Some ((algorithm, use), t) \<Rightarrow>
          (case baseDecode C (drop (length t) identifier) of
             None \<Rightarrow> Inl InvalidEncoding
           | Some b \<Rightarrow>
               if keyLengthOk C algorithm (length b) then Inr (b, algorithm, use)
               else Inl InvalidEncoding))"

text \<open>
  Modelled from the spec: the table is chosen so that no tag is a prefix of another
  entry's tag.
\<close>

definition prefixFree :: "(tagKey \<times> string) list \<Rightarrow> bool" where
  "prefixFree T = list_all (\<lambda>x. list_all (\<lambda>y. startsWith (snd x) (snd y) \<longrightarrow> x = y) T) T"

subsection \<open>Device names\<close>

text \<open>\<^verbatim>\<open>getDeviceName(did)\<close>.\<close>

definition getDeviceName :: "'k env \<Rightarrow> string \<Rightarrow> string" where
  "getDeviceName E did =
     (let hashedUsername = sha256 E (TextEncoder_encode E (normalize_NFD E did))
      in take 32 (toString E hashedUsername ''base32''))"

section \<open>Contracts of the collaborators\<close>

text \<open>
  What the properties below ask of the cryptographic provider. Each is a statement
  about the provider's functions alone.
\<close>

text \<open>
  A valid exchange key pair: whatever the wrap of a byte message under the public key
  returns is a block of the length fixed by the key size, and the private key unwraps
  it to the message.
\<close>

definition validExchangeKeyPair :: "'k env \<Rightarrow> 'k AsymmetricKeyPair \<Rightarrow> bool" where
  "validExchangeKeyPair E K =
     (usage K = Exchange \<and>
      (\<forall>m c r1 r2.
         rsaOperations_encrypt E (Buf m) (CryptoKey (publicKey K)) r1 = (Inr c, r2)
         \<longrightarrow> length c = keySize K div 8 \<and> asymmetricDecrypt E c (privateKey K) = Inr m))"


text \<open>
  A key generated with the default algorithm and length, once exported, imports back
  to the same key.
\<close>

definition keysReimport :: "'k env \<Rightarrow> bool" where
  "keysReimport E =
     (\<forall>r k r1 raw.
        subtle_generateKey E DEFAULT_SYMM_ALGORITHM DEFAULT_SYMM_LENGTH r = (Inr k, r1)
        \<and> subtle_exportKey E k = Inr raw
        \<longrightarrow> subtle_importKey E raw AES_GCM SymmKeyLength_B256 = Inr k)"

text \<open>Symmetric decryption under the same key and iv inverts encryption.\<close>

definition cipherCorrect :: "'k env \<Rightarrow> bool" where
  "cipherCorrect E =
     (\<forall>k iv d c. subtle_encrypt E AES_GCM iv k d = Inr c
        \<longrightarrow> subtle_decrypt E AES_GCM iv k c = Inr d)"

text \<open>
  The cipher is authenticated: if a ciphertext decrypts under a key and iv, the same
  ciphertext with one bit flipped is rejected with \<open>DecryptionFailed\<close>.
\<close>

definition cipherAuthentic :: "'k env \<Rightarrow> bool" where
  "cipherAuthentic E =
     (\<forall>k iv c d p b.
        subtle_decrypt E AES_GCM iv k c = Inr d \<and> p < length c \<and> b < 8
        \<longrightarrow> subtle_decrypt E AES_GCM iv k (flipBit p b c) = Inl DecryptionFailed)"



text \<open>
  Raw key import, as \<open>importAesKey\<close> calls it, accepts key material exactly when its
  length in bits is an accepted size and rejects it with \<open>InvalidKeyLength\<close>
  otherwise.
\<close>

definition importChecksLength :: "'k env \<Rightarrow> (nat \<Rightarrow> bool) \<Rightarrow> bool" where
  "importChecksLength E accepted =
     (\<forall>raw. if accepted (8 * length raw)
            then (\<exists>k. subtle_importKey E raw AES_GCM SymmKeyLength_B256 = Inr k)
            else subtle_importKey E raw AES_GCM SymmKeyLength_B256 = Inl InvalidKeyLength)"

section \<open>The symmetric key of a sealing\<close>



section \<open>A small concrete environment\<close>

text \<open>
  The properties below hold for every environment that meets the stated contracts. To
  run the model on concrete inputs, this section gives one small environment that meets
  them. It is a stand-in with the right shape and no cryptographic strength: key
  handles are the raw key bytes; the symmetric cipher masks each byte with one pad
  byte derived from key and iv and appends a one-byte checksum; the asymmetric wrap
  writes a length byte, the message and random padding into a block as long as the
  public key; the hash is 40 copies of the checksum of its input; text codecs map a
  character to its byte.
\<close>

definition xsum :: "bytes \<Rightarrow> byte" where
  "xsum xs = foldr (XOR) xs 0"

definition demoPad :: "bytes \<Rightarrow> bytes \<Rightarrow> byte" where
  "demoPad k iv = xsum (k @ iv)"

definition demoEncrypt :: "string \<Rightarrow> bytes \<Rightarrow> bytes \<Rightarrow> bytes \<Rightarrow> error + bytes" where
  "demoEncrypt alg iv k d =
     (if alg \<noteq> ''AES-GCM'' then Inl UnsupportedAlgorithm
      else let body = map (\<lambda>x. x XOR demoPad k iv) d
           in Inr (body @ [xsum body XOR demoPad k iv]))"

definition demoDecrypt :: "string \<Rightarrow> bytes \<Rightarrow> bytes \<Rightarrow> bytes \<Rightarrow> error + bytes" where
  "demoDecrypt alg iv k c =
     (if alg \<noteq> ''AES-GCM'' then Inl UnsupportedAlgorithm
      else if c \<noteq> [] \<and> xsum c = demoPad k iv
           then Inr (map (\<lambda>x. x XOR demoPad k iv) (butlast c))
           else Inl DecryptionFailed)"

definition demoGenerateKey :: "string \<Rightarrow> nat \<Rightarrow> bytes io" where
  "demoGenerateKey alg len r = (case randomBuf (len div 8) r of (b, r') \<Rightarrow> (Inr b, r'))"

definition demoImportKey :: "bytes \<Rightarrow> string \<Rightarrow> nat \<Rightarrow> error + bytes" where
  "demoImportKey raw alg len =
     (if length raw = 16 \<or> length raw = 24 \<or> length raw = 32 then Inr raw
      else Inl InvalidKeyLength)"

definition charBytes :: "string \<Rightarrow> bytes" where
  "charBytes s = map (\<lambda>c. of_nat (of_char c)) s"

definition byteChars :: "bytes \<Rightarrow> string" where
  "byteChars b = map (\<lambda>x. char_of (unat x)) b"

definition demoWrap :: "Msg \<Rightarrow> bytes KeyArg \<Rightarrow> bytes io" where
  "demoWrap msg pub r =
     (let m = (case msg of Str s \<Rightarrow> charBytes s | Buf b \<Rightarrow> b) in
      case pub of
        CryptoKey k \<Rightarrow>
          if length m < length k \<and> length m < 256
          then (case randomBuf (length k - 1 - length m) r of
                  (padding, r') \<Rightarrow> (Inr (of_nat (length m) # m @ padding), r'))
          else (Inl ProviderFailure, r)
      | KeyBytes b \<Rightarrow> (Inl UnsupportedPublicKeyFormat, r)
      | KeyStr s \<Rightarrow> (Inl UnsupportedPublicKeyFormat, r))"

definition demoUnwrap :: "bytes \<Rightarrow> bytes \<Rightarrow> error + bytes" where
  "demoUnwrap c priv =
     (case c of
        [] \<Rightarrow> Inl DecryptionFailed
      | n # rest \<Rightarrow>
          if length c = length priv \<and> unat n \<le> length rest then Inr (take (unat n) rest)
          else Inl DecryptionFailed)"

definition demoCodec :: codec where
  "demoCodec =
     \<lparr> tags = [((RsaExchange, Exchange), ''did:key:zX''), ((RsaSigning, Sign), ''did:key:zS'')],
       baseEncode = byteChars,
       baseDecode = (\<lambda>s. Some (charBytes s)),
       keyLengthOk = (\<lambda>a n. 0 < n) \<rparr>"

definition demoEnv :: "bytes env" where
  "demoEnv =
     \<lparr> subtle_generateKey = demoGenerateKey,
       subtle_exportKey = (\<lambda>k. Inr k),
       subtle_importKey = demoImportKey,
       subtle_encrypt = demoEncrypt,
       subtle_decrypt = demoDecrypt,
       asymmetricDecrypt = demoUnwrap,
       rsaOperations_encrypt = demoWrap,
       rsaOperations_verify = (\<lambda>msg sig key. Resolves (sig = msg)),
       didToPublicKey =
         (\<lambda>did. case decode demoCodec did of Inl e \<Rightarrow> Inl e | Inr (b, a, u) \<Rightarrow> Inr b),
       importPublicKey = (\<lambda>b h u. Inr b),
       util_importKey = (\<lambda>s. Inr (charBytes s)),
       base64ToArrBuf = (\<lambda>s. Inr (charBytes s)),
       strToArrBuf = (\<lambda>s n. charBytes s),
       sha256 = (\<lambda>b. replicate 40 (xsum b)),
       DEFAULT_CHAR_SIZE = 16,
       fromString = charBytes,
       toString = (\<lambda>b enc. byteChars b),
       normalize_NFD = (\<lambda>s. s),
       TextEncoder_encode = charBytes \<rparr>"


definition demoRng :: rng where
  "demoRng i = of_nat (i + 1)"

definition demoAccepted :: "nat \<Rightarrow> bool" where
  "demoAccepted n = (n = 128 \<or> n = 192 \<or> n = 256)"


text \<open>
  A second environment, the same provider with text read as the module's text helpers
  read it: two different readings of a string. Base64 text decodes each character to
  its index from \<open>CHR ''A''\<close>, and the wrap reads a string by its 16-bit character
  codes, low byte first. A wider key pair makes room for a string key in the wrapped
  block.
\<close>

definition demoBase64 :: "string \<Rightarrow> error + bytes" where
  "demoBase64 s = Inr (map (\<lambda>c. of_nat (of_char c) - 65) s)"

definition utf16Bytes :: "string \<Rightarrow> bytes" where
  "utf16Bytes s = concat (map (\<lambda>c. [of_nat (of_char c), 0]) s)"

definition demoWrapText :: "Msg \<Rightarrow> bytes KeyArg \<Rightarrow> bytes io" where
  "demoWrapText msg pub =
     demoWrap (case msg of Str s \<Rightarrow> Buf (utf16Bytes s) | Buf b \<Rightarrow> Buf b) pub"

definition demoTextEnv :: "bytes env" where
  "demoTextEnv = demoEnv\<lparr>base64ToArrBuf := demoBase64, rsaOperations_encrypt := demoWrapText\<rparr>"

definition demoWideKeyPair :: "bytes AsymmetricKeyPair" where
  "demoWideKeyPair =
     \<lparr> publicKey = replicate 80 1, privateKey = replicate 80 1, keySize = 640,
       usage = Exchange \<rparr>"




section \<open>Basic facts about the model\<close>






subsection \<open>What a successful sealing consists of\<close>















subsection \<open>Opening a well-formed envelope\<close>






subsection \<open>Functions that never generate a key\<close>

lemma frame_importAesKey:
  "importAesKey (E\<lparr>subtle_generateKey := g\<rparr>) = importAesKey E"
  by (intro ext) (simp add: importAesKey_def)








subsection \<open>Matching tags\<close>

lemma longestTag_unique:
  assumes "\<And>x. x \<in> set T \<Longrightarrow> startsWith (snd x) s \<Longrightarrow> x = e"
    and "best = None \<or> best = Some e"
    and "(e \<in> set T \<and> startsWith (snd e) s) \<or> best = Some e"
  shows "longestTag T s best = Some e"
  using assms
proof (induction T arbitrary: best)
  case Nil
  then show ?case by simp
next
  case (Cons a T)
  obtain k t where a: "a = (k, t)" by (cases a)
  show ?case
  proof (cases "startsWith t s")
    case True
    with Cons.prems(1) [of a] a have e: "e = (k, t)" by simp
    have "longestTag T s (Some e) = Some e"
      by (rule Cons.IH) (use Cons.prems in auto)
    with Cons.prems(2) True a e show ?thesis
      by auto
  next
    case False
    have "longestTag T s best = Some e"
      by (rule Cons.IH) (use Cons.prems False a in auto)
    with False a show ?thesis by simp
  qed
qed

lemma startsWith_comparable:
  assumes "startsWith a (t @ rest)"
  shows "startsWith a t \<or> startsWith t a"
proof (cases "length a \<le> length t")
  case True
  with assms show ?thesis by (simp add: startsWith_def)
next
  case False
  with assms have "a = t @ take (length a - length t) rest"
    by (simp add: startsWith_def)
  then have "take (length t) a = t"
    by (metis append_eq_conv_conj)
  then show ?thesis by (simp add: startsWith_def)
qed

lemma prefixFree_D:
  "prefixFree T \<Longrightarrow> x \<in> set T \<Longrightarrow> y \<in> set T \<Longrightarrow> startsWith (snd x) (snd y) \<Longrightarrow> x = y"
  by (auto simp: prefixFree_def list_all_iff)

section \<open>Facts about the concrete environment\<close>

lemma xsum_append: "xsum (xs @ ys) = xsum xs XOR xsum ys"
  by (induction xs) (simp_all add: xsum_def xor.assoc)

lemma xsum_single: "xsum [t] = t"
  by (simp add: xsum_def)

lemma xor_twice: "(x XOR p) XOR p = (x::byte)"
  by (simp add: xor.assoc)

lemma xor_fixed: "(a::byte) XOR b = a \<longleftrightarrow> b = 0"
proof
  assume "a XOR b = a"
  then have "a XOR (a XOR b) = a XOR a" by simp
  then show "b = 0" by (simp only: bit.xor_left_self xor_self_eq)
qed simp

lemma xsum_update:
  "p < length c \<Longrightarrow> xsum (c[p := y]) = xsum c XOR (c ! p) XOR y"
proof (induction c arbitrary: p)
  case Nil
  then show ?case by simp
next
  case (Cons x xs)
  show ?case
  proof (cases p)
    case 0
    have "x XOR (xsum xs XOR (x XOR y)) = y XOR xsum xs"
      by (simp add: xor.left_commute [of x] bit.xor_left_self xor.commute)
    with 0 show ?thesis by (simp add: xsum_def xor.assoc)
  next
    case (Suc q)
    with Cons show ?thesis
      by (simp add: xsum_def xor.assoc)
  qed
qed

lemma xsum_flipBit:
  "p < length c \<Longrightarrow> xsum (flipBit p b c) = xsum c XOR push_bit b 1"
  by (simp add: flipBit_def xsum_update flip_bit_eq_xor bit.xor_left_self)

lemma demoDecrypt_demoEncrypt:
  "demoEncrypt ''AES-GCM'' iv k d = Inr c \<Longrightarrow> demoDecrypt ''AES-GCM'' iv k c = Inr d"
  by (auto simp: demoEncrypt_def demoDecrypt_def xsum_append xsum_single bit.xor_left_self
      xor_twice o_def Let_def)

lemma demoDecrypt_flipBit:
  assumes "demoDecrypt ''AES-GCM'' iv k c = Inr d" "p < length c" "b < 8"
  shows "demoDecrypt ''AES-GCM'' iv k (flipBit p b c) = Inl DecryptionFailed"
proof -
  from assms(1) have ok: "xsum c = demoPad k iv"
    by (auto simp: demoDecrypt_def split: if_splits)
  from assms(3) have "push_bit b (1::byte) \<noteq> 0"
    by (simp add: push_bit_eq_mult)
  with assms(2) ok have "xsum (flipBit p b c) \<noteq> demoPad k iv"
    by (simp add: xsum_flipBit xor_fixed)
  then show ?thesis by (simp add: demoDecrypt_def)
qed

lemma demo_cipherCorrect: "cipherCorrect demoEnv"
  by (simp add: cipherCorrect_def demoEnv_def AES_GCM_def demoDecrypt_demoEncrypt)

lemma demo_cipherAuthentic: "cipherAuthentic demoEnv"
  by (auto simp: cipherAuthentic_def demoEnv_def AES_GCM_def demoDecrypt_flipBit)

lemma demo_keysReimport: "keysReimport demoEnv"
  by (auto simp: keysReimport_def demoEnv_def demoGenerateKey_def demoImportKey_def
      randomBuf_def DEFAULT_SYMM_LENGTH_def split: prod.splits)



lemma demo_importChecksLength: "importChecksLength demoEnv demoAccepted"
  by (auto simp: importChecksLength_def demoEnv_def demoImportKey_def demoAccepted_def)

lemma demoText_cipherCorrect: "cipherCorrect demoTextEnv"
  using demo_cipherCorrect by (simp add: cipherCorrect_def demoTextEnv_def)

lemma demoText_cipherAuthentic: "cipherAuthentic demoTextEnv"
  using demo_cipherAuthentic by (simp add: cipherAuthentic_def demoTextEnv_def)

lemma demoText_keysReimport: "keysReimport demoTextEnv"
  using demo_keysReimport by (simp add: keysReimport_def demoTextEnv_def)

lemma demoText_validKeyPair: "validExchangeKeyPair demoTextEnv demoWideKeyPair"
  by (auto simp: validExchangeKeyPair_def demoTextEnv_def demoEnv_def demoWideKeyPair_def
      demoWrapText_def demoWrap_def demoUnwrap_def randomBuf_def unat_of_nat Let_def
      split: if_splits prod.splits)



section \<open>Properties\<close>

subsection \<open>Signature verification\<close>

text \<open>
  Claim C1 says that \<open>verify\<close> returns a boolean for every message, signature and
  signer identifier and never throws or rejects. The code does not do that: the
  identifier is decoded and the key imported before the \<^verbatim>\<open>try\<close> block, and the
  promise of \<^verbatim>\<open>rsaOperations.verify\<close> is returned without \<^verbatim>\<open>await\<close>. So whenever
  the identifier cannot be decoded, or the decoded key cannot be imported for signing,
  or the provider's promise rejects, \<open>verify\<close> fails with that same error instead of
  returning \<open>False\<close>.
\<close>

theorem verify_throws:
  "(didToPublicKey E did = Inl e \<longrightarrow> verify E msg sig did = Inl e)
   \<and> (didToPublicKey E did = Inr pk \<and> importPublicKey E pk SHA_256 Sign = Inl e
        \<longrightarrow> verify E msg sig did = Inl e)
   \<and> (didToPublicKey E did = Inr pk \<and> importPublicKey E pk SHA_256 Sign = Inr key
        \<and> rsaOperations_verify E msg sig key = Rejects e
        \<longrightarrow> verify E msg sig did = Inl e)"
  by (simp add: verify_def bindR_def)

theorem verify_throws_witness:
  "didToPublicKey demoEnv ''not-a-did'' = Inl MalformedIdentifier
   \<and> verify demoEnv (Str ''hello'') (Buf [1, 2, 3]) ''not-a-did'' = Inl MalformedIdentifier"
proof -
  have d: "didToPublicKey demoEnv ''not-a-did'' = Inl MalformedIdentifier"
    by (simp add: demoEnv_def decode_def demoCodec_def startsWith_def)
  with verify_throws [of demoEnv "''not-a-did''" MalformedIdentifier "Str ''hello''"
      "Buf [1, 2, 3]"]
  show ?thesis by simp
qed

text \<open>
  Once the identifier has resolved to a signing key, \<open>verify\<close> returns the provider's
  answer, and \<open>False\<close> when the call to the provider throws.
\<close>

lemma verify_returns:
  assumes "didToPublicKey E did = Inr pk" "importPublicKey E pk SHA_256 Sign = Inr key"
  shows "verify E msg sig did =
      (case rsaOperations_verify E msg sig key of
         Throws err \<Rightarrow> Inr False | Rejects err \<Rightarrow> Inl err | Resolves ok \<Rightarrow> Inr ok)"
  using assms by (simp add: verify_def bindR_def)

subsection \<open>The envelope\<close>












subsection \<open>Identifiers\<close>

text \<open>
  Claim C3. For every public key, algorithm and usage whose combination has a tag in a
  prefix-free tag table, whose bytes survive the base encoding and have the length the
  algorithm expects, encoding succeeds and gives the tag followed by the base-encoded
  bytes, and decoding that identifier returns exactly the bytes, the algorithm and the
  usage. Encoding is a function of its three arguments, so two encodings of the same
  triple are the same identifier.
\<close>

theorem decode_encode:
  assumes supported: "map_of (tags C) (algorithm, use) = Some t"
    and wf: "prefixFree (tags C)"
    and rt: "baseDecode C (baseEncode C publicKeyBytes) = Some publicKeyBytes"
    and len: "keyLengthOk C algorithm (length publicKeyBytes)"
  shows "encode C publicKeyBytes algorithm use = Inr (t @ baseEncode C publicKeyBytes)
       \<and> bindR (encode C publicKeyBytes algorithm use) (decode C)
           = Inr (publicKeyBytes, algorithm, use)"
proof -
  let ?e = "((algorithm, use), t)"
  let ?s = "t @ baseEncode C publicKeyBytes"
  have enc: "encode C publicKeyBytes algorithm use = Inr ?s"
    by (simp add: encode_def supported)
  from supported have mem: "?e \<in> set (tags C)"
    by (rule map_of_SomeD)
  have self: "startsWith (snd ?e) ?s"
    by (simp add: startsWith_def)
  have only: "x = ?e" if "x \<in> set (tags C)" "startsWith (snd x) ?s" for x
  proof -
    from that(2) have "startsWith (snd x) t \<or> startsWith t (snd x)"
      by (rule startsWith_comparable)
    then show ?thesis
    proof
      assume "startsWith (snd x) t"
      then have "startsWith (snd x) (snd ?e)" by simp
      with wf that(1) mem show ?thesis by (rule prefixFree_D)
    next
      assume "startsWith t (snd x)"
      then have "startsWith (snd ?e) (snd x)" by simp
      with wf mem that(1) have "?e = x" by (rule prefixFree_D)
      then show ?thesis by (rule sym)
    qed
  qed
  have "longestTag (tags C) ?s None = Some ?e"
  proof (rule longestTag_unique)
    show "x = ?e" if "x \<in> set (tags C)" "startsWith (snd x) ?s" for x
      using that by (rule only)
    show "None = None \<or> None = Some ?e" by simp
    from mem self show "(?e \<in> set (tags C) \<and> startsWith (snd ?e) ?s) \<or> None = Some ?e"
      by blast
  qed
  then have "decode C ?s = Inr (publicKeyBytes, algorithm, use)"
    by (simp add: decode_def rt len)
  with enc show ?thesis by (simp add: bindR_def)
qed

theorem decode_encode_witness:
  "encode demoCodec [1, 2, 3] RsaSigning Sign = Inr (''did:key:zS'' @ byteChars [1, 2, 3])
   \<and> decode demoCodec (''did:key:zS'' @ byteChars [1, 2, 3])
       = Inr ([1, 2, 3], RsaSigning, Sign)"
proof -
  have s: "map_of (tags demoCodec) (RsaSigning, Sign) = Some ''did:key:zS''"
    by (simp add: demoCodec_def)
  have w: "prefixFree (tags demoCodec)"
    by (simp add: demoCodec_def prefixFree_def startsWith_def)
  have r: "baseDecode demoCodec (baseEncode demoCodec [1, 2, 3]) = Some [1, 2, 3]"
    by (simp add: demoCodec_def byteChars_def charBytes_def)
  have l: "keyLengthOk demoCodec RsaSigning (length [1, 2, 3 :: byte])"
    by (simp add: demoCodec_def)
  have be: "baseEncode demoCodec = byteChars"
    by (simp add: demoCodec_def)
  note t = decode_encode [OF s w r l, unfolded be]
  from t have e: "encode demoCodec [1, 2, 3] RsaSigning Sign
                    = Inr (''did:key:zS'' @ byteChars [1, 2, 3])"
    by (rule conjunct1)
  from t have "bindR (encode demoCodec [1, 2, 3] RsaSigning Sign) (decode demoCodec)
                 = Inr ([1, 2, 3], RsaSigning, Sign)"
    by (rule conjunct2)
  then have d: "decode demoCodec (''did:key:zS'' @ byteChars [1, 2, 3])
                  = Inr ([1, 2, 3], RsaSigning, Sign)"
    by (simp only: e bindR_def sum.case)
  from e d show ?thesis by (rule conjI)
qed

subsection \<open>Symmetric keys\<close>

text \<open>
  Claim C7. \<open>AES_import\<close> hands the key material (the bytes themselves, or the bytes a
  base64 string decodes to) to the provider's raw key import unchanged. So with a
  provider that checks the length, \<open>AES_import\<close> fails with \<open>InvalidKeyLength\<close>
  whenever the decoded material's length in bits is not an accepted size, and returns
  a key handle whenever it is.
\<close>

theorem AES_import_checks_length:
  assumes contract: "importChecksLength E accepted"
    and decoded: "(case key of Str s \<Rightarrow> base64ToArrBuf E s | Buf b \<Rightarrow> Inr b) = Inr raw"
  shows "AES_import E key = subtle_importKey E raw AES_GCM SymmKeyLength_B256
       \<and> (if accepted (8 * length raw) then \<exists>k. AES_import E key = Inr k
           else AES_import E key = Inl InvalidKeyLength)"
proof -
  have "AES_import E key = subtle_importKey E raw AES_GCM SymmKeyLength_B256"
    by (simp add: AES_import_def decoded bindR_def importAesKey_def)
  moreover from contract
  have "if accepted (8 * length raw)
        then \<exists>k. subtle_importKey E raw AES_GCM SymmKeyLength_B256 = Inr k
        else subtle_importKey E raw AES_GCM SymmKeyLength_B256 = Inl InvalidKeyLength"
    unfolding importChecksLength_def by blast
  ultimately show ?thesis by simp
qed

theorem AES_import_checks_length_witness:
  "AES_import demoEnv (Str ''short'') = Inl InvalidKeyLength
   \<and> AES_import demoEnv (Buf (replicate 16 9)) = Inr (replicate 16 9)"
proof -
  have d1: "(case Str ''short'' of Str s \<Rightarrow> base64ToArrBuf demoEnv s | Buf b \<Rightarrow> Inr b)
            = Inr [115, 104, 111, 114, 116]"
    by (simp add: demoEnv_def charBytes_def)
  have d2: "(case Buf (replicate 16 9) of Str s \<Rightarrow> base64ToArrBuf demoEnv s | Buf b \<Rightarrow> Inr b)
            = Inr (replicate 16 9)"
    by simp
  from AES_import_checks_length [OF demo_importChecksLength d1, THEN conjunct2]
  have "AES_import demoEnv (Str ''short'') = Inl InvalidKeyLength"
    by (simp add: demoAccepted_def)
  moreover from AES_import_checks_length [OF demo_importChecksLength d2, THEN conjunct1]
  have "AES_import demoEnv (Buf (replicate 16 9)) = Inr (replicate 16 9)"
    by (simp add: demoEnv_def demoImportKey_def)
  ultimately show ?thesis by simp
qed

subsection \<open>Symmetric decryption and encryption\<close>




text \<open>
  Claim C10. With an iv supplied, \<open>encrypt\<close> is the provider's encryption of the data
  under the (imported) key and that iv: it draws nothing from the entropy stream and
  leaves it as it was, it does not depend on the key generator, and two runs on the
  same data, key and iv return the same bytes whatever the entropy and the requested
  output view. The provider's cipher is a function of algorithm, iv, key and data.
\<close>

theorem encrypt_fixed_iv_deterministic:
  "encrypt E data cryptoKey format (Some iv) r =
     (bindR (case cryptoKey of IsKey k \<Rightarrow> Inr k | IsBytes b \<Rightarrow> importAesKey E b None)
        (\<lambda>key. subtle_encrypt E AES_GCM iv key data), r)
   \<and> encrypt (E\<lparr>subtle_generateKey := g\<rparr>) data cryptoKey format (Some iv) r =
       encrypt E data cryptoKey format (Some iv) r
   \<and> fst (encrypt E data cryptoKey format (Some iv) r) =
       fst (encrypt E data cryptoKey format' (Some iv) r')"
  by (cases cryptoKey; cases "importAesKey E (case cryptoKey of IsBytes b \<Rightarrow> b) None")
     (simp_all add: encrypt_def bindE_def bindR_def returnE_def liftE_def frame_importAesKey)

theorem encrypt_fixed_iv_deterministic_witness:
  "encrypt demoEnv [104, 105] (IsBytes (replicate 32 7)) None
      (Some [1, 2, 3, 4, 5, 6, 7, 8, 9, 10, 11, 12]) demoRng
    = (Inr [100, 101, 13], demoRng)"
proof -
  have e: "bindR (case IsBytes (replicate 32 7) of IsKey k \<Rightarrow> Inr k
                  | IsBytes b \<Rightarrow> importAesKey demoEnv b None)
             (\<lambda>key. subtle_encrypt demoEnv AES_GCM [1, 2, 3, 4, 5, 6, 7, 8, 9, 10, 11, 12] key
                [104, 105])
           = Inr [100, 101, 13]"
    by code_simp
  from encrypt_fixed_iv_deterministic [of demoEnv "[104, 105]" "IsBytes (replicate 32 7)" None
      "[1, 2, 3, 4, 5, 6, 7, 8, 9, 10, 11, 12]" demoRng, THEN conjunct1]
  show ?thesis by (simp only: e)
qed

subsection \<open>Device names\<close>

text \<open>
  Claim C8. For every identifier, \<open>getDeviceName\<close> is the first 32 characters of the
  base32 text of the hash of the identifier's NFD-normalised encoding. It is a function
  of the identifier alone and never longer than 32 characters: its length is 32, or
  that of the base32 text if that is shorter.
\<close>

theorem getDeviceName_first_32:
  "getDeviceName E did =
     take 32 (toString E (sha256 E (TextEncoder_encode E (normalize_NFD E did))) ''base32'')
   \<and> length (getDeviceName E did) \<le> 32
   \<and> length (getDeviceName E did) =
       min 32 (length (toString E (sha256 E (TextEncoder_encode E (normalize_NFD E did)))
                 ''base32''))"
  by (simp add: getDeviceName_def)

theorem getDeviceName_first_32_witness:
  "getDeviceName demoEnv ''ab'' = replicate 32 (CHR 0x03)
   \<and> length (getDeviceName demoEnv ''ab'') = 32"
proof -
  have "take 32 (toString demoEnv
          (sha256 demoEnv (TextEncoder_encode demoEnv (normalize_NFD demoEnv ''ab'')))
          ''base32'') = replicate 32 (CHR 0x03)"
    by code_simp
  with getDeviceName_first_32 [of demoEnv "''ab''"] show ?thesis
    by simp
qed

end
